theory Spec2Isabelle
  imports Complex_Main "HOL-Library.Char_ord" "HOL-Library.List_Lexorder"
    "HOL-Library.Multiset"
begin

section \<open>Conventions of the embedding\<close>

text \<open>
  The risk and sentiment functions are the Python methods of the agent enhancement
  document (\<open>calculate_max_drawdown\<close>, \<open>calculate_annualized_volatility\<close>,
  \<open>calculate_sharpe_ratio\<close>, \<open>generate_risk_recommendations\<close>,
  \<open>analyze_sentiment_trend\<close>). A Python exception is a value of type \<open>error\<close>; a
  function that can raise returns \<open>error + 'a\<close>, with \<open>Inl\<close> for the exception.

  The functions compute in binary floating point. The maximum drawdown and the
  annualised volatility are embedded over exact reals: the arithmetic of the model is the
  arithmetic the formulas denote, without binary rounding. The sentiment trend and the
  Sharpe ratio, whose results turn on comparisons of rounded values, are embedded with
  the floating-point operations as a parameter (the functions named \<open>..._fp\<close>): what
  is proved of them for every choice of the operations holds of the program whatever its
  arithmetic rounds to. Their instances with exact real arithmetic keep the source's
  names and are used at concrete inputs.
\<close>

datatype error = ZeroDivisionError | ValueError | OverflowError

text \<open>Python's \<open>a / b\<close> on floats raises \<open>ZeroDivisionError\<close> when \<open>b\<close> is zero.\<close>

definition py_div :: "real \<Rightarrow> real \<Rightarrow> error + real" where
  "py_div a b = (if b = 0 then Inl ZeroDivisionError else Inr (a / b))"

text \<open>
  A list comprehension whose element expression can raise: the first exception ends
  the comprehension.
\<close>

fun map_err :: "('a \<Rightarrow> error + 'b) \<Rightarrow> 'a list \<Rightarrow> error + 'b list" where
  "map_err f [] = Inr []"
| "map_err f (x # xs) =
     (case f x of
        Inl e \<Rightarrow> Inl e
      | Inr y \<Rightarrow> (case map_err f xs of Inl e \<Rightarrow> Inl e | Inr ys \<Rightarrow> Inr (y # ys)))"

text \<open>
  \<open>round(x, 2)\<close>: the nearest multiple of one hundredth, a tie going to the even
  neighbour.
\<close>

definition round_half_even :: "real \<Rightarrow> int" where
  "round_half_even y =
     (let f = \<lfloor>y\<rfloor>; d = y - of_int f
      in if d < 1 / 2 then f
         else if 1 / 2 < d then f + 1
         else if even f then f else f + 1)"

definition py_round2 :: "real \<Rightarrow> real" where
  "py_round2 x = of_int (round_half_even (x * 100)) / 100"

text \<open>\<open>min(xs)\<close> raises \<open>ValueError\<close> on an empty sequence.\<close>

definition py_min :: "real list \<Rightarrow> error + real" where
  "py_min xs = (if xs = [] then Inl ValueError else Inr (min_list xs))"

section \<open>Floating-point operations\<close>

text \<open>
  The operations on floats that the sentiment trend and the Sharpe ratio use, over a
  type \<open>'f\<close> of float values (which may hold infinities and NaN). None of them is
  given a meaning here:
  \<^item> \<open>is_zero x\<close>: \<open>x == 0\<close>, which is also the falsiness of a float;
  \<^item> \<open>fless x y\<close>: \<open>x < y\<close>;
  \<^item> \<open>lit c\<close>: the float that a numeric literal \<open>c\<close> of the source denotes;
  \<^item> \<open>fsub\<close>, \<open>fmul\<close>: \<open>x - y\<close> and \<open>x * y\<close>;
  \<^item> \<open>fquot x y\<close>: \<open>x / y\<close> for a divisor that is not zero, and
    \<open>fquot_len x n\<close>: \<open>x / n\<close> for a length \<open>n\<close> that is not zero;
  \<^item> \<open>fsum\<close>: the built-in \<open>sum\<close> of a non-empty sequence of floats;
  \<^item> \<open>fpow2 x\<close>: \<open>x ** 2\<close>, which raises \<open>OverflowError\<close> (\<open>None\<close>) when the
    square of a finite float is out of range, and \<open>fpow_half x\<close>: \<open>x ** 0.5\<close>;
  \<^item> \<open>fround2 x\<close>: \<open>round(x, 2)\<close>, and \<open>fabs x\<close>: \<open>abs(x)\<close>.
\<close>

record 'f float_ops =
  is_zero :: "'f \<Rightarrow> bool"
  fless :: "'f \<Rightarrow> 'f \<Rightarrow> bool"
  lit :: "real \<Rightarrow> 'f"
  fsub :: "'f \<Rightarrow> 'f \<Rightarrow> 'f"
  fmul :: "'f \<Rightarrow> 'f \<Rightarrow> 'f"
  fquot :: "'f \<Rightarrow> 'f \<Rightarrow> 'f"
  fquot_len :: "'f \<Rightarrow> nat \<Rightarrow> 'f"
  fsum :: "'f list \<Rightarrow> 'f"
  fpow2 :: "'f \<Rightarrow> 'f option"
  fpow_half :: "'f \<Rightarrow> 'f"
  fround2 :: "'f \<Rightarrow> 'f"
  fabs :: "'f \<Rightarrow> 'f"

text \<open>Exact real arithmetic: no rounding, and no square out of range.\<close>

definition exact_ops :: "real float_ops" where
  "exact_ops =
     \<lparr>is_zero = (\<lambda>x. x = 0), fless = (\<lambda>x y. x < y), lit = (\<lambda>c. c),
      fsub = (\<lambda>x y. x - y), fmul = (\<lambda>x y. x * y), fquot = (\<lambda>x y. x / y),
      fquot_len = (\<lambda>x n. x / real n), fsum = sum_list, fpow2 = (\<lambda>x. Some (x ^ 2)),
      fpow_half = sqrt, fround2 = py_round2, fabs = (\<lambda>x. \<bar>x\<bar>)\<rparr>"

text \<open>
  \<open>a / b\<close> raises \<open>ZeroDivisionError\<close> when the float \<open>b\<close> is zero, and \<open>a / n\<close>
  when the integer \<open>n\<close> is zero; a quotient out of range is an infinity, not an
  exception.
\<close>

definition py_div_fp :: "'f float_ops \<Rightarrow> 'f \<Rightarrow> 'f \<Rightarrow> error + 'f" where
  "py_div_fp ar a b = (if is_zero ar b then Inl ZeroDivisionError else Inr (fquot ar a b))"

definition py_div_len :: "'f float_ops \<Rightarrow> 'f \<Rightarrow> nat \<Rightarrow> error + 'f" where
  "py_div_len ar a n = (if n = 0 then Inl ZeroDivisionError else Inr (fquot_len ar a n))"

section \<open>Sentiment trend (\<open>analyze_sentiment_trend\<close>)\<close>

text \<open>
  A news item is a dictionary; the function reads the keys \<open>published_at\<close> and
  \<open>sentiment\<close> with \<open>.get\<close>, so each field is optional (\<open>None\<close>: key absent).
\<close>

record news_item =
  published_at :: "string option"
  sentiment :: "string option"

text \<open>\<open>x.get("published_at", "")\<close> and \<open>news.get("sentiment", "neutral")\<close>.\<close>

definition get_published_at :: "news_item \<Rightarrow> string" where
  "get_published_at x = (case published_at x of None \<Rightarrow> [] | Some s \<Rightarrow> s)"

definition get_sentiment :: "news_item \<Rightarrow> string" where
  "get_sentiment x = (case sentiment x of None \<Rightarrow> ''neutral'' | Some s \<Rightarrow> s)"

text \<open>
  The body of the \<open>for news in news_list\<close> loop of \<open>avg_sentiment\<close>: one score is
  appended to \<open>scores\<close> per article.
\<close>

fun scores_loop_fp :: "'f float_ops \<Rightarrow> 'f list \<Rightarrow> news_item list \<Rightarrow> 'f list" where
  "scores_loop_fp ar scores [] = scores"
| "scores_loop_fp ar scores (news # rest) =
     (let sentiment = get_sentiment news
      in if sentiment = ''positive'' then scores_loop_fp ar (scores @ [lit ar (8 / 10)]) rest
         else if sentiment = ''negative''
         then scores_loop_fp ar (scores @ [lit ar (2 / 10)]) rest
         else scores_loop_fp ar (scores @ [lit ar (5 / 10)]) rest)"

text \<open>\<open>return sum(scores) / len(scores) if scores else 0.5\<close>.\<close>

definition avg_sentiment_fp :: "'f float_ops \<Rightarrow> news_item list \<Rightarrow> error + 'f" where
  "avg_sentiment_fp ar news_list =
     (let scores = scores_loop_fp ar [] news_list
      in if scores \<noteq> [] then py_div_len ar (fsum ar scores) (length scores)
         else Inr (lit ar (5 / 10)))"

text \<open>
  The returned dictionary. An entry is a string, a float, an integer (the \<open>0\<close> of the
  empty-list branch) or the description. The \<open>description\<close> entry is an f-string with
  two holes, a word chosen by the sign of \<open>change\<close> and \<open>abs(change)\<close> printed with
  two decimals; the value \<open>PDescr\<close> keeps the two holes and leaves the rendering out.
\<close>

datatype mood = Improved | Worsened | Steady

datatype 'f pyval = PStr string | PNum 'f | PInt int | PDescr mood 'f

type_synonym 'f pydict = "string \<rightharpoonup> 'f pyval"

text \<open>
  \<open>analyze_sentiment_trend\<close>. The comparisons \<open>change > 0.1\<close>, \<open>change < -0.1\<close>,
  \<open>change > 0\<close> and \<open>change < 0\<close> are comparisons of floats; \<open>sorted\<close> is a stable
  sort on the key, as \<open>sort_key\<close> is.
\<close>

definition analyze_sentiment_trend_fp ::
  "'f float_ops \<Rightarrow> news_item list \<Rightarrow> error + 'f pydict" where
  "analyze_sentiment_trend_fp ar news_data =
     (if news_data = [] then
        Inr [''trend'' \<mapsto> PStr ''STABLE'', ''change'' \<mapsto> PInt 0]
      else
        let sorted_news = sort_key get_published_at news_data;
            mid = length sorted_news div 2;
            first_half = take mid sorted_news;
            second_half = drop mid sorted_news
        in case avg_sentiment_fp ar first_half of
             Inl e \<Rightarrow> Inl e
           | Inr first_avg \<Rightarrow>
               (case avg_sentiment_fp ar second_half of
                  Inl e \<Rightarrow> Inl e
                | Inr second_avg \<Rightarrow>
                    let change = fsub ar second_avg first_avg;
                        trend = (if fless ar (lit ar (1 / 10)) change then ''IMPROVING''
                                 else if fless ar change (lit ar (- (1 / 10)))
                                 then ''DETERIORATING''
                                 else ''STABLE'')
                    in Inr [''trend'' \<mapsto> PStr trend,
                            ''change'' \<mapsto> PNum (fround2 ar change),
                            ''first_half_sentiment'' \<mapsto> PNum (fround2 ar first_avg),
                            ''second_half_sentiment'' \<mapsto> PNum (fround2 ar second_avg),
                            ''description'' \<mapsto>
                              PDescr (if fless ar (lit ar 0) change then Improved
                                      else if fless ar change (lit ar 0) then Worsened
                                      else Steady)
                                     (fabs ar change)]))"

text \<open>The two functions with exact real arithmetic.\<close>

definition avg_sentiment :: "news_item list \<Rightarrow> error + real" where
  "avg_sentiment = avg_sentiment_fp exact_ops"

definition analyze_sentiment_trend :: "news_item list \<Rightarrow> error + real pydict" where
  "analyze_sentiment_trend = analyze_sentiment_trend_fp exact_ops"





section \<open>Aggregate news sentiment\<close>

text \<open>
  The source calls \<open>analyze_news_sentiment(news_data)\<close> for the score and label of
  the news and defines it nowhere; the definitions of this section stand for it.
\<close>

text \<open>
  Modelled from the spec: the errors of the engines (section 7), which the source does
  not declare. The sentiment engine returns without raising any of them.
\<close>

datatype engine_error = DataUnavailableError | InsufficientHistoryError | ComputationError

text \<open>
  Modelled from the spec: the result of the Sentiment Scoring Engine for a news list,
  \<open>{score, label, insufficientData}\<close> (sections 4.3 and 8), which the source does not
  declare.
\<close>

datatype sentiment_label = POSITIVE | NEGATIVE | NEUTRAL

record sentiment_summary =
  score :: real
  label :: sentiment_label
  insufficient_data :: bool

text \<open>
  Modelled from the spec: the per-article score of section 4.3, missing with
  \<open>analyze_news_sentiment\<close>: 0.8 for an article labelled positive, 0.2 for negative,
  0.5 for neutral, and the score of the external classifier (a parameter) when the
  article carries none of the three labels.
\<close>

definition news_score :: "(news_item \<Rightarrow> real) \<Rightarrow> news_item \<Rightarrow> real" where
  "news_score classify n =
     (if sentiment n = Some ''positive'' then 8 / 10
      else if sentiment n = Some ''negative'' then 2 / 10
      else if sentiment n = Some ''neutral'' then 5 / 10
      else classify n)"

text \<open>
  Modelled from the spec: \<open>analyze_news_sentiment\<close>, the aggregate news sentiment of
  the Sentiment Scoring Engine (section 4.3), which the source calls and does not
  define. The aggregate score is the mean of the per-article scores, labelled by the
  engine's labelling of a score (a parameter: the specification gives no thresholds),
  with the flag for insufficient data cleared. An empty list yields the neutral
  defaults, score 0.5 and label NEUTRAL, with the flag set.
\<close>

definition analyze_news_sentiment ::
  "(news_item \<Rightarrow> real) \<Rightarrow> (real \<Rightarrow> sentiment_label) \<Rightarrow> news_item list
     \<Rightarrow> engine_error + sentiment_summary" where
  "analyze_news_sentiment classify label_of news =
     (if news = [] then
        Inr \<lparr>score = 5 / 10, label = NEUTRAL, insufficient_data = True\<rparr>
      else
        let mean = sum_list (map (news_score classify) news) / real (length news)
        in Inr \<lparr>score = mean, label = label_of mean, insufficient_data = False\<rparr>)"

section \<open>Risk metrics\<close>

text \<open>
  \<open>stock_data.get("historical_data", [])\<close> is a list of day dictionaries, of which
  the functions read the key \<open>close\<close> (\<open>None\<close>: key absent or value \<open>None\<close>). An
  absent \<open>historical_data\<close> key reads as the empty list.
\<close>

record 'f price_day =
  close :: "'f option"

record 'f stock_data =
  historical_data :: "'f price_day list"

text \<open>
  \<open>[float(day.get("close", 0)) for day in historical_data if day.get("close")]\<close>:
  the filter keeps the days whose close is truthy, that is present and not zero.
\<close>

definition close_is_truthy :: "real price_day \<Rightarrow> bool" where
  "close_is_truthy day = (case close day of None \<Rightarrow> False | Some c \<Rightarrow> c \<noteq> 0)"

definition get_close :: "'f price_day \<Rightarrow> 'f \<Rightarrow> 'f" where
  "get_close day dflt = (case close day of None \<Rightarrow> dflt | Some c \<Rightarrow> c)"

definition closing_prices :: "real price_day list \<Rightarrow> real list" where
  "closing_prices hist = map (\<lambda>day. get_close day 0) (filter close_is_truthy hist)"

text \<open>
  \<open>[(prices[i] - prices[i-1]) / prices[i-1] for i in range(1, len(prices))]\<close>; the
  indices of the range are within the list.
\<close>

definition daily_returns :: "real list \<Rightarrow> error + real list" where
  "daily_returns prices =
     map_err (\<lambda>i. py_div (prices ! i - prices ! (i - 1)) (prices ! (i - 1)))
       [1..<length prices]"

text \<open>
  The two \<open>for\<close> loops of \<open>calculate_max_drawdown\<close>, each appending to its list:
  \<open>cumulative_returns.append(cumulative_returns[-1] * (1 + ret))\<close> and
  \<open>running_max.append(max(running_max[-1], val))\<close>. Both lists start non-empty.
\<close>

fun cumulative_loop :: "real list \<Rightarrow> real list \<Rightarrow> real list" where
  "cumulative_loop cumulative_returns [] = cumulative_returns"
| "cumulative_loop cumulative_returns (ret # rest) =
     cumulative_loop (cumulative_returns @ [last cumulative_returns * (1 + ret)]) rest"

fun running_max_loop :: "real list \<Rightarrow> real list \<Rightarrow> real list" where
  "running_max_loop running_max [] = running_max"
| "running_max_loop running_max (val # rest) =
     running_max_loop (running_max @ [max (last running_max) val]) rest"

definition drawdown_list :: "real list \<Rightarrow> real list \<Rightarrow> error + real list" where
  "drawdown_list cumulative_returns running_max =
     map_err (\<lambda>i. py_div (cumulative_returns ! i - running_max ! i) (running_max ! i))
       [0..<length cumulative_returns]"

definition calculate_max_drawdown :: "real stock_data \<Rightarrow> error + real" where
  "calculate_max_drawdown sd =
     (if length (historical_data sd) < 10 then Inr 0
      else
        let prices = closing_prices (historical_data sd)
        in if length prices < 2 then Inr 0
           else
             case daily_returns prices of
               Inl e \<Rightarrow> Inl e
             | Inr returns \<Rightarrow>
                 let cumulative_returns = cumulative_loop [1] returns;
                     running_max =
                       running_max_loop [cumulative_returns ! 0] (tl cumulative_returns)
                 in case drawdown_list cumulative_returns running_max of
                      Inl e \<Rightarrow> Inl e
                    | Inr drawdowns \<Rightarrow>
                        (case py_min drawdowns of
                           Inl e \<Rightarrow> Inl e
                         | Inr m \<Rightarrow> Inr (py_round2 (m * 100))))"


text \<open>
  The Sharpe ratio, with the floating-point operations as a parameter. The closes are
  floats; the filter of the price list keeps the closes that are present and not zero.
\<close>

definition close_is_truthy_fp :: "'f float_ops \<Rightarrow> 'f price_day \<Rightarrow> bool" where
  "close_is_truthy_fp ar day =
     (case close day of None \<Rightarrow> False | Some c \<Rightarrow> \<not> is_zero ar c)"

definition closing_prices_fp :: "'f float_ops \<Rightarrow> 'f price_day list \<Rightarrow> 'f list" where
  "closing_prices_fp ar hist =
     map (\<lambda>day. get_close day (lit ar 0)) (filter (close_is_truthy_fp ar) hist)"

definition daily_returns_fp :: "'f float_ops \<Rightarrow> 'f list \<Rightarrow> error + 'f list" where
  "daily_returns_fp ar prices =
     map_err (\<lambda>i. py_div_fp ar (fsub ar (prices ! i) (prices ! (i - 1))) (prices ! (i - 1)))
       [1..<length prices]"

text \<open>
  The block of \<open>calculate_sharpe_ratio\<close> from \<open>avg_return\<close> to \<open>annual_std\<close>: it
  yields the pair \<open>(annual_return, annual_std)\<close> of the annualised mean return and the
  annualised volatility of the return list. The squares \<open>(r - avg_return) ** 2\<close> are
  computed one after the other inside \<open>sum\<close>; the first that is out of range raises
  \<open>OverflowError\<close>.
\<close>

definition square_fp :: "'f float_ops \<Rightarrow> 'f \<Rightarrow> error + 'f" where
  "square_fp ar x = (case fpow2 ar x of None \<Rightarrow> Inl OverflowError | Some y \<Rightarrow> Inr y)"

definition annualized_moments_fp :: "'f float_ops \<Rightarrow> 'f list \<Rightarrow> error + ('f \<times> 'f)" where
  "annualized_moments_fp ar returns =
     (case py_div_len ar (fsum ar returns) (length returns) of
        Inl e \<Rightarrow> Inl e
      | Inr avg_return \<Rightarrow>
          (case map_err (\<lambda>r. square_fp ar (fsub ar r avg_return)) returns of
             Inl e \<Rightarrow> Inl e
           | Inr squares \<Rightarrow>
               (case py_div_len ar (fsum ar squares) (length returns) of
                  Inl e \<Rightarrow> Inl e
                | Inr variance \<Rightarrow>
                    let std_return = fpow_half ar variance;
                        annual_return = fmul ar avg_return (lit ar 252);
                        annual_std = fmul ar std_return (fpow_half ar (lit ar 252))
                    in Inr (annual_return, annual_std))))"

definition calculate_sharpe_ratio_fp ::
  "'f float_ops \<Rightarrow> 'f stock_data \<Rightarrow> 'f \<Rightarrow> error + 'f" where
  "calculate_sharpe_ratio_fp ar sd risk_free_rate =
     (if length (historical_data sd) < 10 then Inr (lit ar 0)
      else
        let prices = closing_prices_fp ar (historical_data sd)
        in if length prices < 2 then Inr (lit ar 0)
           else
             case daily_returns_fp ar prices of
               Inl e \<Rightarrow> Inl e
             | Inr returns \<Rightarrow>
                 (case annualized_moments_fp ar returns of
                    Inl e \<Rightarrow> Inl e
                  | Inr (annual_return, annual_std) \<Rightarrow>
                      if is_zero ar annual_std then Inr (lit ar 0)
                      else
                        (case py_div_fp ar (fsub ar annual_return risk_free_rate)
                                annual_std of
                           Inl e \<Rightarrow> Inl e
                         | Inr sharpe \<Rightarrow> Inr (fround2 ar sharpe))))"


text \<open>The two functions with exact real arithmetic.\<close>

definition calculate_sharpe_ratio :: "real stock_data \<Rightarrow> real \<Rightarrow> error + real" where
  "calculate_sharpe_ratio = calculate_sharpe_ratio_fp exact_ops"


text \<open>
  \<open>generate_risk_recommendations\<close> reads four keys of \<open>risk_metrics\<close> with defaults.
  Each recommendation is a fixed sentence of the source; the constructors name them in
  the order of the rules: the high-volatility caution, the large-drawdown caution, the
  high-beta and low-beta notes, the negative and the good Sharpe-ratio notes, and the
  fallback that the risk metrics are within a reasonable range.
\<close>

datatype recommendation =
  HighVolatility | LargeDrawdown | HighBeta | LowBeta | NegativeSharpe | GoodSharpe
  | WithinRange

definition metric :: "(string \<rightharpoonup> real) \<Rightarrow> string \<Rightarrow> real \<Rightarrow> real" where
  "metric risk_metrics key dflt = (case risk_metrics key of None \<Rightarrow> dflt | Some v \<Rightarrow> v)"

definition generate_risk_recommendations :: "(string \<rightharpoonup> real) \<Rightarrow> recommendation list" where
  "generate_risk_recommendations risk_metrics =
     (let volatility = metric risk_metrics ''volatility'' 0;
          max_drawdown = metric risk_metrics ''max_drawdown'' 0;
          beta = metric risk_metrics ''beta'' 1;
          sharpe = metric risk_metrics ''sharpe_ratio'' 0;
          r0 = [];
          r1 = (if volatility > 30 then r0 @ [HighVolatility] else r0);
          r2 = (if max_drawdown < - 30 then r1 @ [LargeDrawdown] else r1);
          r3 = (if beta > 15 / 10 then r2 @ [HighBeta]
                else if beta < 5 / 10 then r2 @ [LowBeta] else r2);
          r4 = (if sharpe < 0 then r3 @ [NegativeSharpe]
                else if sharpe > 1 then r3 @ [GoodSharpe] else r3)
      in if r4 = [] then r4 @ [WithinRange] else r4)"

section \<open>Alert trigger state machine\<close>

text \<open>
  The alert types, the three statuses and the fields of an alert are those of the front
  end's declarations (\<open>enum AlertType\<close>, \<open>enum AlertStatus\<close>, \<open>interface Alert\<close>
  with its \<open>trigger_history\<close> entries). The front end only calls the operations
  (\<open>handleAcknowledge\<close> and \<open>acknowledgeAlert\<close> request
  \<open>/alerts/{id}/acknowledge\<close>); the alert service that evaluates and acknowledges
  alerts is not among the sources.
\<close>

datatype alert_type = price_drop | price_rise | volume_spike | news_alert

datatype alert_status = PENDING | TRIGGERED | ACKNOWLEDGED

text \<open>
  Modelled from the spec: the error of section 7 that an invalid alert action raises;
  the sources declare no error type for alerts.
\<close>

datatype alert_error = InvalidStateTransitionError

record trigger_entry =
  timestamp :: string
  price :: real
  change_percent :: real
  baseline_price :: real

record alert =
  alert_id :: nat
  stock_id :: nat
  alert_kind :: alert_type
  threshold_value :: real
  current_value :: real
  trigger_count :: nat
  trigger_history :: "trigger_entry list"
  required_triggers :: nat
  message :: string
  status :: alert_status
  triggered_at :: "string option"
  acknowledged_at :: "string option"
  created_at :: string

text \<open>
  Modelled from the spec: the tracked subject of section 3, which carries the baseline
  price and the threshold an evaluation cycle measures against; its declaration is not
  among the sources.
\<close>

record tracked_subject =
  symbol :: string
  subject_baseline :: real
  threshold_percent :: real
  required_trigger_count :: nat

text \<open>
  Modelled from the spec: the breach condition of rule 2 of section 4.4, missing with
  the alert service. A drop alert breaches when the change is at or below the (negative)
  threshold, a rise alert when it is at or above it; the specification gives no price
  condition for the two other alert types, which never breach here.
\<close>

definition breaches :: "alert_type \<Rightarrow> real \<Rightarrow> real \<Rightarrow> bool" where
  "breaches kind change threshold =
     (case kind of
        price_drop \<Rightarrow> change \<le> threshold
      | price_rise \<Rightarrow> threshold \<le> change
      | _ \<Rightarrow> False)"

text \<open>
  Modelled from the spec: the recovery event of rule 3(b) of section 4.4, missing with
  the alert service: the price crosses back past the baseline by the recovery margin,
  upwards for a drop alert and downwards for a rise alert.
\<close>

definition recovers :: "alert_type \<Rightarrow> real \<Rightarrow> real \<Rightarrow> bool" where
  "recovers kind change margin =
     (case kind of
        price_drop \<Rightarrow> margin \<le> change
      | price_rise \<Rightarrow> change \<le> - margin
      | _ \<Rightarrow> False)"

text \<open>
  Modelled from the spec: the result \<open>{previousStatus, newStatus, triggerCount}\<close> that
  \<open>evaluateAlert\<close> returns (section 6), missing with the alert service.
\<close>

record evaluation_result =
  previous_status :: alert_status
  new_status :: alert_status
  result_trigger_count :: nat

text \<open>
  Modelled from the spec: \<open>evaluate\<close>, one evaluation cycle of the alert service
  (rules 1 to 4 of section 4.4 and its cadence paragraph), which is not among the
  sources. A cycle without a current price is skipped whole. Otherwise the change in
  percent is computed against the baseline (rule 1); a breach appends an entry to the
  history and increments the counter (rule 2); a miss leaves both alone unless it is a
  recovery, which resets them (rule 3); then a pending alert whose counter has reached
  the required number becomes triggered, with \<open>triggered_at\<close> stamped and the message
  rendered from the breach parameters (rule 4). The rendering of the message is a
  parameter, as is the recovery margin. The specification does not say what a zero
  baseline does; the claims proved below do not depend on the value of the change.
\<close>

definition evaluate ::
  "(trigger_entry \<Rightarrow> string) \<Rightarrow> real \<Rightarrow> tracked_subject \<Rightarrow> alert \<Rightarrow> real option \<Rightarrow> string
     \<Rightarrow> alert \<times> evaluation_result" where
  "evaluate render recovery_margin subject a current_price now =
     (case current_price of
        None \<Rightarrow>
          (a, \<lparr>previous_status = status a, new_status = status a,
               result_trigger_count = trigger_count a\<rparr>)
      | Some current \<Rightarrow>
          let baseline = subject_baseline subject;
              change = (current - baseline) / baseline * 100;
              entry = \<lparr>timestamp = now, price = current, change_percent = change,
                       baseline_price = baseline\<rparr>;
              a1 = (if breaches (alert_kind a) change (threshold_percent subject)
                    then a\<lparr>trigger_history := trigger_history a @ [entry],
                           trigger_count := trigger_count a + 1\<rparr>
                    else if recovers (alert_kind a) change recovery_margin
                    then a\<lparr>trigger_count := 0, trigger_history := []\<rparr>
                    else a);
              a2 = (if required_triggers a1 \<le> trigger_count a1 \<and> status a1 = PENDING
                    then a1\<lparr>status := TRIGGERED, triggered_at := Some now,
                            message := render entry\<rparr>
                    else a1)
          in (a2, \<lparr>previous_status = status a, new_status = status a2,
                    result_trigger_count = trigger_count a2\<rparr>))"

text \<open>
  Modelled from the spec: the scheduler's successive calls of \<open>evaluate\<close> on one
  alert, an observation being the current price (if any) and the time of the cycle; the
  results of the cycles are collected in order. The scheduler is not among the sources.
\<close>

fun replay ::
  "(trigger_entry \<Rightarrow> string) \<Rightarrow> real \<Rightarrow> tracked_subject \<Rightarrow> alert
     \<Rightarrow> (real option \<times> string) list \<Rightarrow> evaluation_result list" where
  "replay render recovery_margin subject a [] = []"
| "replay render recovery_margin subject a ((current_price, now) # rest) =
     (let (a', r) = evaluate render recovery_margin subject a current_price now
      in r # replay render recovery_margin subject a' rest)"

text \<open>
  Modelled from the spec: the transition result of rule 4, read off the result of a
  cycle: the cycle fires the transition when it takes the alert from pending to
  triggered.
\<close>

definition fired :: "evaluation_result \<Rightarrow> bool" where
  "fired r = (previous_status r = PENDING \<and> new_status r = TRIGGERED)"

text \<open>
  Modelled from the spec: \<open>acknowledge\<close> of the alert service (rule 5 of section
  4.4), which is not among the sources: valid only from triggered, it moves the alert
  to acknowledged and stamps \<open>acknowledged_at\<close>; from any other status it raises
  \<open>InvalidStateTransitionError\<close>.
\<close>

definition acknowledge :: "alert \<Rightarrow> string \<Rightarrow> alert_error + alert" where
  "acknowledge a now =
     (if status a = TRIGGERED
      then Inr (a\<lparr>status := ACKNOWLEDGED, acknowledged_at := Some now\<rparr>)
      else Inl InvalidStateTransitionError)"

section \<open>Concrete inputs\<close>



text \<open>Nine days of falling closes: one day short of the guard of ten.\<close>

definition short_history :: "real stock_data" where
  "short_history = \<lparr>historical_data =
     [\<lparr>close = Some 100\<rparr>, \<lparr>close = Some 90\<rparr>, \<lparr>close = Some 80\<rparr>, \<lparr>close = Some 70\<rparr>,
      \<lparr>close = Some 60\<rparr>, \<lparr>close = Some 50\<rparr>, \<lparr>close = Some 40\<rparr>, \<lparr>close = Some 30\<rparr>,
      \<lparr>close = Some 20\<rparr>]\<rparr>"

text \<open>Ten days with one negative close, and ten days of negative closes that rise.\<close>

definition negative_close_history :: "real stock_data" where
  "negative_close_history = \<lparr>historical_data =
     [\<lparr>close = Some 1\<rparr>, \<lparr>close = Some (- 1)\<rparr>, \<lparr>close = Some 1\<rparr>, \<lparr>close = Some 1\<rparr>,
      \<lparr>close = Some 1\<rparr>, \<lparr>close = Some 1\<rparr>, \<lparr>close = Some 1\<rparr>, \<lparr>close = Some 1\<rparr>,
      \<lparr>close = Some 1\<rparr>, \<lparr>close = Some 1\<rparr>]\<rparr>"

definition rising_negative_history :: "real stock_data" where
  "rising_negative_history = \<lparr>historical_data =
     [\<lparr>close = Some (- 10)\<rparr>, \<lparr>close = Some (- 9)\<rparr>, \<lparr>close = Some (- 8)\<rparr>,
      \<lparr>close = Some (- 7)\<rparr>, \<lparr>close = Some (- 6)\<rparr>, \<lparr>close = Some (- 5)\<rparr>,
      \<lparr>close = Some (- 4)\<rparr>, \<lparr>close = Some (- 3)\<rparr>, \<lparr>close = Some (- 2)\<rparr>,
      \<lparr>close = Some (- 1)\<rparr>]\<rparr>"

text \<open>Ten days of rising positive closes, and ten days with a dip from 120 to 60.\<close>

definition rising_history :: "real stock_data" where
  "rising_history = \<lparr>historical_data =
     [\<lparr>close = Some 100\<rparr>, \<lparr>close = Some 101\<rparr>, \<lparr>close = Some 102\<rparr>, \<lparr>close = Some 103\<rparr>,
      \<lparr>close = Some 104\<rparr>, \<lparr>close = Some 105\<rparr>, \<lparr>close = Some 106\<rparr>, \<lparr>close = Some 107\<rparr>,
      \<lparr>close = Some 108\<rparr>, \<lparr>close = Some 109\<rparr>]\<rparr>"

definition dip_history :: "real stock_data" where
  "dip_history = \<lparr>historical_data =
     [\<lparr>close = Some 100\<rparr>, \<lparr>close = Some 120\<rparr>, \<lparr>close = Some 60\<rparr>, \<lparr>close = Some 90\<rparr>,
      \<lparr>close = Some 96\<rparr>, \<lparr>close = Some 102\<rparr>, \<lparr>close = Some 108\<rparr>, \<lparr>close = Some 114\<rparr>,
      \<lparr>close = Some 117\<rparr>, \<lparr>close = Some 120\<rparr>]\<rparr>"

text \<open>
  The scenario of the specification's section 8: baseline 100, threshold -5 percent,
  three triggers required, on a fresh pending drop alert.
\<close>

definition example_subject :: tracked_subject where
  "example_subject = \<lparr>symbol = ''ACME'', subject_baseline = 100, threshold_percent = - 5,
     required_trigger_count = 3\<rparr>"

definition example_alert :: alert where
  "example_alert = \<lparr>alert_id = 1, stock_id = 1, alert_kind = price_drop, threshold_value = - 5,
     current_value = 100, trigger_count = 0, trigger_history = [], required_triggers = 3,
     message = [], status = PENDING, triggered_at = None, acknowledged_at = None,
     created_at = ''t0''\<rparr>"


definition neutral_article :: news_item where
  "neutral_article = \<lparr>published_at = Some ''2025-10-01'', sentiment = Some ''neutral''\<rparr>"

section \<open>Lemmas about the helpers\<close>

lemmas eval_defs =
  closing_prices_def close_is_truthy_def get_close_def daily_returns_def upt_rec py_div_def
  drawdown_list_def py_min_def py_round2_def round_half_even_def Let_def

lemma map_err_Inr:
  "(\<And>x. x \<in> set xs \<Longrightarrow> f x = Inr (g x)) \<Longrightarrow> map_err f xs = Inr (map g xs)"
  by (induction xs) simp_all

lemma round_half_even_lower: "of_int a \<le> y \<Longrightarrow> a \<le> round_half_even y"
proof -
  assume "of_int a \<le> y"
  then have "a \<le> \<lfloor>y\<rfloor>" by (simp add: le_floor_iff)
  then show ?thesis by (simp add: round_half_even_def Let_def)
qed

lemma round_half_even_upper: "y \<le> of_int b \<Longrightarrow> round_half_even y \<le> b"
proof -
  assume yb: "y \<le> of_int b"
  then have fb: "\<lfloor>y\<rfloor> \<le> b" by (simp add: floor_le_iff)
  show ?thesis
  proof (cases "\<lfloor>y\<rfloor> = b")
    case True
    then have "y = of_int \<lfloor>y\<rfloor>" using yb of_int_floor_le[of y] by simp
    then have "y - of_int \<lfloor>y\<rfloor> = 0" by simp
    then show ?thesis using True by (simp add: round_half_even_def Let_def)
  next
    case False
    then have "\<lfloor>y\<rfloor> + 1 \<le> b" using fb by simp
    then show ?thesis using fb by (simp add: round_half_even_def Let_def)
  qed
qed


lemma py_round2_bounds:
  assumes "- 100 \<le> x" "x \<le> 0"
  shows "- 100 \<le> py_round2 x \<and> py_round2 x \<le> 0"
proof -
  have "of_int (- 10000) \<le> x * 100" using assms by simp
  then have "- 10000 \<le> round_half_even (x * 100)" by (rule round_half_even_lower)
  moreover have "x * 100 \<le> of_int 0" using assms by simp
  then have "round_half_even (x * 100) \<le> 0" by (rule round_half_even_upper)
  ultimately show ?thesis by (simp add: py_round2_def)
qed

lemma py_round2_zero: "py_round2 0 = 0"
  by (simp add: py_round2_def round_half_even_def)


lemma min_list_in_set: "(xs :: real list) \<noteq> [] \<Longrightarrow> min_list xs \<in> set xs"
  by (simp add: min_list_Min)

subsection \<open>Prices and returns\<close>

lemma closing_prices_nonzero: "p \<in> set (closing_prices hist) \<Longrightarrow> p \<noteq> 0"
  by (auto simp: closing_prices_def close_is_truthy_def get_close_def split: option.splits)

lemma daily_returns_Inr:
  assumes "\<And>p. p \<in> set ps \<Longrightarrow> p \<noteq> 0"
  shows "daily_returns ps
           = Inr (map (\<lambda>i. (ps ! i - ps ! (i - 1)) / ps ! (i - 1)) [1..<length ps])"
  unfolding daily_returns_def
proof (rule map_err_Inr)
  fix i assume "i \<in> set [1..<length ps]"
  then have "i - 1 < length ps" by auto
  then have "ps ! (i - 1) \<noteq> 0" using assms by simp
  then show "py_div (ps ! i - ps ! (i - 1)) (ps ! (i - 1))
               = Inr ((ps ! i - ps ! (i - 1)) / ps ! (i - 1))"
    by (simp add: py_div_def)
qed

subsection \<open>The drawdown loops\<close>

lemma length_cumulative_loop: "length (cumulative_loop acc rs) = length acc + length rs"
  by (induction rs arbitrary: acc) simp_all

lemma cumulative_loop_first: "acc \<noteq> [] \<Longrightarrow> cumulative_loop acc rs ! 0 = acc ! 0"
  by (induction rs arbitrary: acc) (simp_all add: nth_append)

lemma cumulative_loop_nonneg:
  "\<lbrakk>\<forall>x\<in>set acc. 0 \<le> x; \<forall>r\<in>set rs. - 1 \<le> r; acc \<noteq> []\<rbrakk>
     \<Longrightarrow> \<forall>x\<in>set (cumulative_loop acc rs). 0 \<le> x"
proof (induction rs arbitrary: acc)
  case Nil
  then show ?case by simp
next
  case (Cons r rs)
  have "0 \<le> last acc" using Cons.prems by simp
  moreover have "0 \<le> 1 + r" using Cons.prems by simp
  ultimately have "0 \<le> last acc * (1 + r)" by simp
  with Cons.prems have "\<forall>x\<in>set (acc @ [last acc * (1 + r)]). 0 \<le> x" by simp
  with Cons.IH[of "acc @ [last acc * (1 + r)]"] Cons.prems show ?case by simp
qed

lemma sorted_le_last:
  assumes "sorted (acc :: real list)" "x \<in> set acc"
  shows "x \<le> last acc"
proof -
  from assms(2) obtain i where i: "i < length acc" "acc ! i = x"
    by (auto simp: in_set_conv_nth)
  then have "acc \<noteq> []" by auto
  then have "last acc = acc ! (length acc - 1)" by (rule last_conv_nth)
  moreover have "acc ! i \<le> acc ! (length acc - 1)"
    using assms(1) i by (intro sorted_nth_mono) auto
  ultimately show ?thesis using i by simp
qed

lemma cumulative_loop_sorted:
  "\<lbrakk>acc \<noteq> []; sorted acc; \<forall>x\<in>set acc. 0 \<le> x; \<forall>r\<in>set rs. 0 \<le> r\<rbrakk>
     \<Longrightarrow> sorted (cumulative_loop acc rs)"
proof (induction rs arbitrary: acc)
  case Nil
  then show ?case by simp
next
  case (Cons r rs)
  let ?n = "last acc * (1 + r)"
  have l0: "0 \<le> last acc" using Cons.prems by simp
  have r0: "0 \<le> r" using Cons.prems by simp
  have "last acc * 1 \<le> last acc * (1 + r)" using l0 r0 by (intro mult_left_mono) simp_all
  then have ge: "last acc \<le> ?n" by simp
  have "\<forall>x\<in>set acc. x \<le> ?n"
  proof
    fix x assume "x \<in> set acc"
    then have "x \<le> last acc" using Cons.prems(2) by (intro sorted_le_last)
    then show "x \<le> ?n" using ge by simp
  qed
  then have "sorted (acc @ [?n])" using Cons.prems by (simp add: sorted_append)
  moreover have "\<forall>x\<in>set (acc @ [?n]). 0 \<le> x" using Cons.prems l0 ge by auto
  ultimately show ?case using Cons.IH[of "acc @ [?n]"] Cons.prems by simp
qed

lemma running_max_loop_dominates:
  "\<lbrakk>acc \<noteq> []; list_all2 (\<lambda>c m. c \<le> m \<and> 1 \<le> m) xs acc\<rbrakk>
     \<Longrightarrow> list_all2 (\<lambda>c m. c \<le> m \<and> 1 \<le> m) (xs @ vs) (running_max_loop acc vs)"
proof (induction vs arbitrary: acc xs)
  case Nil
  then show ?case by simp
next
  case (Cons v vs)
  have "last acc = acc ! (length acc - 1)" using Cons.prems(1) by (rule last_conv_nth)
  moreover have "length acc - 1 < length acc" using Cons.prems(1) by simp
  then have "1 \<le> acc ! (length acc - 1)"
    using Cons.prems(2) by (auto dest: list_all2_nthD2)
  ultimately have "1 \<le> last acc" by simp
  then have "list_all2 (\<lambda>c m. c \<le> m \<and> 1 \<le> m) (xs @ [v]) (acc @ [max (last acc) v])"
    using Cons.prems by (simp add: list_all2_appendI)
  from Cons.IH[OF _ this] show ?case by simp
qed

lemma running_max_loop_sorted:
  "\<lbrakk>acc \<noteq> []; sorted (last acc # vs)\<rbrakk> \<Longrightarrow> running_max_loop acc vs = acc @ vs"
proof (induction vs arbitrary: acc)
  case Nil
  then show ?case by simp
next
  case (Cons v vs)
  then have "max (last acc) v = v" by simp
  moreover have "sorted (v # vs)" using Cons.prems by simp
  ultimately show ?case using Cons.IH[of "acc @ [v]"] by simp
qed

lemma drawdown_list_Inr:
  assumes "list_all2 (\<lambda>c m. c \<le> m \<and> 1 \<le> m) cum rm"
  shows "drawdown_list cum rm
           = Inr (map (\<lambda>i. (cum ! i - rm ! i) / rm ! i) [0..<length cum])"
  unfolding drawdown_list_def
proof (rule map_err_Inr)
  fix i assume "i \<in> set [0..<length cum]"
  then have "1 \<le> rm ! i" using assms by (simp add: list_all2_conv_all_nth)
  then show "py_div (cum ! i - rm ! i) (rm ! i) = Inr ((cum ! i - rm ! i) / rm ! i)"
    by (simp add: py_div_def)
qed

lemma drawdown_range:
  assumes pos: "\<And>p. p \<in> set ps \<Longrightarrow> 0 < p"
  defines "rets \<equiv> map (\<lambda>i. (ps ! i - ps ! (i - 1)) / ps ! (i - 1)) [1..<length ps]"
  defines "cum \<equiv> cumulative_loop [1] rets"
  defines "rm \<equiv> running_max_loop [cum ! 0] (tl cum)"
  shows "\<exists>ds. drawdown_list cum rm = Inr ds \<and> ds \<noteq> [] \<and> (\<forall>d\<in>set ds. - 1 \<le> d \<and> d \<le> 0)"
proof -
  have rets_ge: "\<forall>r\<in>set rets. - 1 \<le> r"
  proof
    fix r assume "r \<in> set rets"
    then obtain i where i: "1 \<le> i" "i < length ps"
      and r: "r = (ps ! i - ps ! (i - 1)) / ps ! (i - 1)"
      by (auto simp: rets_def)
    have a: "0 < ps ! i" using pos i by simp
    have "i - 1 < length ps" using i by simp
    then have b: "0 < ps ! (i - 1)" using pos by simp
    have "r = ps ! i / ps ! (i - 1) - 1" using b r by (simp add: diff_divide_distrib)
    moreover have "0 \<le> ps ! i / ps ! (i - 1)" using a b by simp
    ultimately show "- 1 \<le> r" by simp
  qed
  have cum_nonneg: "\<forall>x\<in>set cum. 0 \<le> x"
    unfolding cum_def using rets_ge by (intro cumulative_loop_nonneg) simp_all
  have cum0: "cum ! 0 = 1" unfolding cum_def by (simp add: cumulative_loop_first)
  have "length cum = 1 + length rets" unfolding cum_def by (simp add: length_cumulative_loop)
  then have cum_ne: "cum \<noteq> []" by auto
  then have cum_split: "[cum ! 0] @ tl cum = cum" by (cases cum) simp_all
  have "list_all2 (\<lambda>c m. c \<le> m \<and> 1 \<le> m) ([cum ! 0] @ tl cum)
          (running_max_loop [cum ! 0] (tl cum))"
    by (rule running_max_loop_dominates) (simp_all add: cum0)
  then have dom: "list_all2 (\<lambda>c m. c \<le> m \<and> 1 \<le> m) cum rm"
    unfolding rm_def cum_split .
  let ?ds = "map (\<lambda>i. (cum ! i - rm ! i) / rm ! i) [0..<length cum]"
  have "drawdown_list cum rm = Inr ?ds" using dom by (rule drawdown_list_Inr)
  moreover have "?ds \<noteq> []" using cum_ne by simp
  moreover have "\<forall>d\<in>set ?ds. - 1 \<le> d \<and> d \<le> 0"
  proof
    fix d assume "d \<in> set ?ds"
    then obtain i where i: "i < length cum" and d: "d = (cum ! i - rm ! i) / rm ! i"
      by auto
    have c: "0 \<le> cum ! i" using cum_nonneg i by simp
    have m: "cum ! i \<le> rm ! i" "1 \<le> rm ! i"
      using dom i by (simp_all add: list_all2_conv_all_nth)
    have "d = cum ! i / rm ! i - 1" using m d by (simp add: diff_divide_distrib)
    moreover have "0 \<le> cum ! i / rm ! i" using c m by simp
    moreover have "cum ! i / rm ! i \<le> 1" using m by simp
    ultimately show "- 1 \<le> d \<and> d \<le> 0" by simp
  qed
  ultimately show ?thesis by blast
qed

lemma drawdown_increasing:
  assumes pos: "\<And>p. p \<in> set ps \<Longrightarrow> 0 < p" and inc: "sorted_wrt (<) ps"
  defines "rets \<equiv> map (\<lambda>i. (ps ! i - ps ! (i - 1)) / ps ! (i - 1)) [1..<length ps]"
  defines "cum \<equiv> cumulative_loop [1] rets"
  defines "rm \<equiv> running_max_loop [cum ! 0] (tl cum)"
  shows "drawdown_list cum rm = Inr (map (\<lambda>i. 0) [0..<length cum])"
proof -
  have rets_ge: "\<forall>r\<in>set rets. 0 \<le> r"
  proof
    fix r assume "r \<in> set rets"
    then obtain i where i: "1 \<le> i" "i < length ps"
      and r: "r = (ps ! i - ps ! (i - 1)) / ps ! (i - 1)"
      by (auto simp: rets_def)
    have "i - 1 < i" using i by simp
    then have lt: "ps ! (i - 1) < ps ! i" using inc i by (simp add: sorted_wrt_nth_less)
    have "i - 1 < length ps" using i by simp
    then have b: "0 < ps ! (i - 1)" using pos by simp
    show "0 \<le> r" using lt b r by simp
  qed
  have cum_sorted: "sorted cum"
    unfolding cum_def using rets_ge by (intro cumulative_loop_sorted) simp_all
  have cum0: "cum ! 0 = 1" unfolding cum_def by (simp add: cumulative_loop_first)
  have "length cum = 1 + length rets" unfolding cum_def by (simp add: length_cumulative_loop)
  then have cum_ne: "cum \<noteq> []" by auto
  then have cum_split: "[cum ! 0] @ tl cum = cum" by (cases cum) simp_all
  have first_sorted: "sorted (cum ! 0 # tl cum)" using cum_split cum_sorted by simp
  then have "running_max_loop [cum ! 0] (tl cum) = [cum ! 0] @ tl cum"
    by (intro running_max_loop_sorted) simp_all
  then have rm_eq: "rm = cum" unfolding rm_def cum_split .
  have one_le: "\<forall>x\<in>set cum. 1 \<le> x"
  proof
    fix x assume "x \<in> set cum"
    then have "x \<in> set (cum ! 0 # tl cum)" using cum_split by simp
    then show "1 \<le> x" using first_sorted cum0 by auto
  qed
  show ?thesis unfolding drawdown_list_def rm_eq
  proof (rule map_err_Inr)
    fix i assume "i \<in> set [0..<length cum]"
    then have "1 \<le> cum ! i" using one_le by simp
    then show "py_div (cum ! i - cum ! i) (cum ! i) = Inr 0" by (simp add: py_div_def)
  qed
qed

subsection \<open>The Sharpe ratio\<close>



subsection \<open>The sentiment loop\<close>





subsection \<open>The Sharpe ratio\<close>







subsection \<open>The alert state machine\<close>

lemma evaluate_fired_iff:
  "fired (snd (evaluate render m subj a (Some p) t))
     = (status a = PENDING
        \<and> required_triggers a
            \<le> result_trigger_count (snd (evaluate render m subj a (Some p) t)))"
  by (cases "status a") (auto simp: evaluate_def fired_def Let_def)

lemma evaluate_status:
  "status (fst (evaluate render m subj a obs t))
     = (if fired (snd (evaluate render m subj a obs t)) then TRIGGERED else status a)"
  by (cases obs) (auto simp: evaluate_def fired_def Let_def)

lemma evaluate_not_pending:
  "status a \<noteq> PENDING \<Longrightarrow> \<not> fired (snd (evaluate render m subj a obs t))"
  by (cases obs) (auto simp: evaluate_def fired_def Let_def)

lemma replay_not_pending:
  "status a \<noteq> PENDING \<Longrightarrow> filter fired (replay render m subj a obs) = []"
proof (induction obs arbitrary: a)
  case Nil
  then show ?case by simp
next
  case (Cons ob obs)
  obtain cp t where ob: "ob = (cp, t)" by (cases ob)
  obtain a' r where ev: "evaluate render m subj a cp t = (a', r)"
    by (cases "evaluate render m subj a cp t")
  have nf: "\<not> fired r"
    using evaluate_not_pending[OF Cons.prems, of render m subj cp t] ev by simp
  have "status a' = status a" using evaluate_status[of render m subj a cp t] ev nf by simp
  then have "filter fired (replay render m subj a' obs) = []"
    using Cons.prems Cons.IH by simp
  then show ?case using ob ev nf by simp
qed

lemma replay_fires_once: "length (filter fired (replay render m subj a obs)) \<le> 1"
proof (induction obs arbitrary: a)
  case Nil
  then show ?case by simp
next
  case (Cons ob obs)
  obtain cp t where ob: "ob = (cp, t)" by (cases ob)
  obtain a' r where ev: "evaluate render m subj a cp t = (a', r)"
    by (cases "evaluate render m subj a cp t")
  show ?case
  proof (cases "fired r")
    case True
    then have "status a' = TRIGGERED"
      using evaluate_status[of render m subj a cp t] ev by simp
    then have "filter fired (replay render m subj a' obs) = []"
      by (simp add: replay_not_pending)
    then show ?thesis using ob ev True by simp
  next
    case False
    then show ?thesis using ob ev Cons.IH[of a'] by simp
  qed
qed

section \<open>The claims\<close>

text \<open>
  C1. Modelled from the spec (the alert service is not among the sources). In a cycle
  that has a current price, the cycle takes the alert from pending to triggered exactly
  when the alert was pending and its counter, as the cycle leaves it, has reached the
  required number of triggers. Over any sequence of cycles on one alert the transition
  fires at most once, and it never fires on an alert that is already triggered or
  acknowledged, whatever breaches are replayed.
\<close>

theorem trigger_transition_iff_and_once:
  "(fired (snd (evaluate render m subj a (Some p) t))
      \<longleftrightarrow> status a = PENDING
          \<and> required_triggers a
              \<le> result_trigger_count (snd (evaluate render m subj a (Some p) t)))
   \<and> length (filter fired (replay render m subj a obs)) \<le> 1
   \<and> (status a \<noteq> PENDING \<longrightarrow> filter fired (replay render m subj a obs) = [])"
  using evaluate_fired_iff replay_fires_once replay_not_pending by blast

theorem trigger_transition_iff_and_once_witness:
  "status (example_alert\<lparr>status := TRIGGERED, trigger_count := 3\<rparr>) \<noteq> PENDING
   \<and> filter fired (replay (\<lambda>e. ''drop'') 1 example_subject
        (example_alert\<lparr>status := TRIGGERED, trigger_count := 3\<rparr>)
        [(Some 92, ''t4''), (Some 91, ''t5'')]) = []
   \<and> fired (snd (evaluate (\<lambda>e. ''drop'') 1 example_subject
        (example_alert\<lparr>trigger_count := 2\<rparr>) (Some 93) ''t3''))"
  using trigger_transition_iff_and_once
          [of "\<lambda>e. ''drop''" 1 example_subject
              "example_alert\<lparr>status := TRIGGERED, trigger_count := 3\<rparr>" 92 "''t4''"
              "[(Some 92, ''t4''), (Some 91, ''t5'')]"]
        trigger_transition_iff_and_once
          [of "\<lambda>e. ''drop''" 1 example_subject "example_alert\<lparr>trigger_count := 2\<rparr>" 93
              "''t3''" "[]"]
  by (simp add: example_alert_def example_subject_def evaluate_def breaches_def fired_def
        Let_def)

text \<open>
  The scenario of the specification on the model: three breaching prices take the fresh
  alert to triggered at the third cycle with a counter of three, and a fourth breach
  leaves it triggered.
\<close>

lemma replay_scenario:
  "map (\<lambda>r. (previous_status r, new_status r, result_trigger_count r))
     (replay (\<lambda>e. ''drop'') 1 example_subject example_alert
        [(Some 95, ''t1''), (Some 94, ''t2''), (Some 93, ''t3''), (Some 92, ''t4'')])
   = [(PENDING, PENDING, 1), (PENDING, PENDING, 2), (PENDING, TRIGGERED, 3),
      (TRIGGERED, TRIGGERED, 4)]"
  by (simp add: example_subject_def example_alert_def evaluate_def breaches_def
        recovers_def Let_def)

text \<open>
  C2. Modelled from the spec (the alert service is not among the sources).
  \<open>acknowledge\<close> on a pending alert raises \<open>InvalidStateTransitionError\<close>; on a
  triggered alert it succeeds, moving the alert to acknowledged and stamping
  \<open>acknowledged_at\<close>; a further call on the alert it returned raises
  \<open>InvalidStateTransitionError\<close>.
\<close>

theorem acknowledge_only_from_triggered:
  "(status a = PENDING \<longrightarrow> acknowledge a t = Inl InvalidStateTransitionError)
   \<and> (status a = TRIGGERED \<longrightarrow>
        acknowledge a t = Inr (a\<lparr>status := ACKNOWLEDGED, acknowledged_at := Some t\<rparr>)
        \<and> acknowledge (a\<lparr>status := ACKNOWLEDGED, acknowledged_at := Some t\<rparr>) t'
            = Inl InvalidStateTransitionError)"
  by (simp add: acknowledge_def)

theorem acknowledge_only_from_triggered_witness:
  "status example_alert = PENDING
   \<and> acknowledge example_alert ''t1'' = Inl InvalidStateTransitionError
   \<and> status (example_alert\<lparr>status := TRIGGERED\<rparr>) = TRIGGERED
   \<and> acknowledge (example_alert\<lparr>status := TRIGGERED\<rparr>) ''t1''
       = Inr (example_alert\<lparr>status := ACKNOWLEDGED, acknowledged_at := Some ''t1''\<rparr>)
   \<and> acknowledge (example_alert\<lparr>status := ACKNOWLEDGED, acknowledged_at := Some ''t1''\<rparr>)
        ''t2'' = Inl InvalidStateTransitionError"
  using acknowledge_only_from_triggered [of example_alert "''t1''" "''t2''"]
        acknowledge_only_from_triggered
          [of "example_alert\<lparr>status := TRIGGERED\<rparr>" "''t1''" "''t2''"]
  by (simp add: example_alert_def)

text \<open>
  C3, as stated, fails: \<open>calculate_max_drawdown\<close> accepts negative closes (its filter
  drops only absent and zero ones). With one negative close among positive ones the
  result is -200 percent, below -100; and for ten negative closes that rise strictly the
  result is -90 percent, not 0.
\<close>

theorem max_drawdown_negative_close_counterexample:
  "calculate_max_drawdown negative_close_history = Inr (- 200)
   \<and> sorted_wrt (<) (closing_prices (historical_data rising_negative_history))
   \<and> calculate_max_drawdown rising_negative_history = Inr (- 90)"
  unfolding negative_close_history_def rising_negative_history_def calculate_max_drawdown_def
  by (simp add: eval_defs)

text \<open>
  C3, amended. For every price history whose closes, as the function reads them, are
  all positive, \<open>calculate_max_drawdown\<close> returns a value and raises nothing, the value
  lies between -100 and 0 percent, and it is exactly 0 when the closes rise strictly.
\<close>

theorem max_drawdown_range_positive_closes:
  assumes pos: "\<forall>p\<in>set (closing_prices (historical_data sd)). 0 < p"
  shows "\<exists>d. calculate_max_drawdown sd = Inr d \<and> - 100 \<le> d \<and> d \<le> 0
           \<and> (sorted_wrt (<) (closing_prices (historical_data sd)) \<longrightarrow> d = 0)"
proof (cases "length (historical_data sd) < 10
              \<or> length (closing_prices (historical_data sd)) < 2")
  case True
  then have "calculate_max_drawdown sd = Inr 0"
    by (auto simp: calculate_max_drawdown_def Let_def)
  then show ?thesis by simp
next
  case False
  define ps where "ps = closing_prices (historical_data sd)"
  define rets where
    "rets = map (\<lambda>i. (ps ! i - ps ! (i - 1)) / ps ! (i - 1)) [1..<length ps]"
  define cum where "cum = cumulative_loop [1] rets"
  define rm where "rm = running_max_loop [cum ! 0] (tl cum)"
  have pos': "\<And>p. p \<in> set ps \<Longrightarrow> 0 < p" using pos by (simp add: ps_def)
  have "\<And>p. p \<in> set ps \<Longrightarrow> p \<noteq> 0" using pos' by fastforce
  then have dr: "daily_returns ps = Inr rets" unfolding rets_def by (rule daily_returns_Inr)
  obtain ds where ds: "drawdown_list cum rm = Inr ds" "ds \<noteq> []"
      "\<forall>d\<in>set ds. - 1 \<le> d \<and> d \<le> 0"
    using drawdown_range[OF pos'] unfolding rm_def cum_def rets_def by blast
  have res: "calculate_max_drawdown sd = Inr (py_round2 (min_list ds * 100))"
    using False dr ds(1,2)
    by (simp add: calculate_max_drawdown_def Let_def ps_def[symmetric] cum_def[symmetric]
          rm_def[symmetric] py_min_def)
  have in_ds: "min_list ds \<in> set ds" using ds(2) by (rule min_list_in_set)
  then have "- 1 \<le> min_list ds" "min_list ds \<le> 0" using ds(3) by auto
  then have "- 100 \<le> min_list ds * 100" "min_list ds * 100 \<le> 0" by simp_all
  then have rng: "- 100 \<le> py_round2 (min_list ds * 100)
                  \<and> py_round2 (min_list ds * 100) \<le> 0"
    by (rule py_round2_bounds)
  have "py_round2 (min_list ds * 100) = 0" if inc: "sorted_wrt (<) ps"
  proof -
    have "drawdown_list cum rm = Inr (map (\<lambda>i. 0) [0..<length cum])"
      using drawdown_increasing[OF pos' inc] unfolding rm_def cum_def rets_def .
    then have "ds = map (\<lambda>i. 0) [0..<length cum]" using ds(1) by simp
    then have "set ds \<subseteq> {0}" by auto
    with in_ds have "min_list ds = 0" by auto
    then show ?thesis by (simp add: py_round2_zero)
  qed
  with res rng show ?thesis by (simp add: ps_def)
qed

theorem max_drawdown_range_positive_closes_witness:
  "list_all (\<lambda>p. 0 < p) (closing_prices (historical_data dip_history))
   \<and> calculate_max_drawdown dip_history = Inr (- 50)
   \<and> list_all (\<lambda>p. 0 < p) (closing_prices (historical_data rising_history))
   \<and> sorted_wrt (<) (closing_prices (historical_data rising_history))
   \<and> calculate_max_drawdown rising_history = Inr 0"
proof -
  have d: "\<forall>p\<in>set (closing_prices (historical_data dip_history)). 0 < p"
    by (simp add: dip_history_def closing_prices_def close_is_truthy_def get_close_def)
  have r: "\<forall>p\<in>set (closing_prices (historical_data rising_history)). 0 < p"
    by (simp add: rising_history_def closing_prices_def close_is_truthy_def get_close_def)
  have s: "sorted_wrt (<) (closing_prices (historical_data rising_history))"
    by (simp add: rising_history_def closing_prices_def close_is_truthy_def get_close_def)
  have dv: "calculate_max_drawdown dip_history = Inr (- 50)"
    unfolding dip_history_def calculate_max_drawdown_def by (simp add: eval_defs)
  show ?thesis
    using max_drawdown_range_positive_closes[OF d] max_drawdown_range_positive_closes[OF r]
      d r s dv by (auto simp: list_all_iff)
qed






text \<open>
  C6, as stated, fails: for the nine-day history, one day short of the minimum,
  \<open>calculate_max_drawdown\<close> and \<open>calculate_sharpe_ratio\<close> both return 0.0 and raise
  nothing, although the closes fall from 100 to 20.
\<close>

theorem short_history_returns_zero_counterexample:
  "length (historical_data short_history) = 9
   \<and> calculate_max_drawdown short_history = Inr 0
   \<and> calculate_sharpe_ratio short_history (2 / 100) = Inr 0"
  by (simp add: short_history_def calculate_max_drawdown_def calculate_sharpe_ratio_def
        calculate_sharpe_ratio_fp_def exact_ops_def)

text \<open>
  C6, amended. For every input whose price history has fewer than 10 entries,
  \<open>calculate_max_drawdown\<close> and \<open>calculate_sharpe_ratio\<close> raise no error and return
  0.0.
\<close>

theorem short_history_returns_zero:
  "length (historical_data sd) < 10 \<Longrightarrow>
     calculate_max_drawdown sd = Inr 0 \<and> calculate_sharpe_ratio sd rfr = Inr 0"
  by (simp add: calculate_max_drawdown_def calculate_sharpe_ratio_def
        calculate_sharpe_ratio_fp_def exact_ops_def)

theorem short_history_returns_zero_witness:
  "length (historical_data short_history) < 10
   \<and> calculate_max_drawdown short_history = Inr 0
   \<and> calculate_sharpe_ratio short_history (2 / 100) = Inr 0"
proof -
  have l: "length (historical_data short_history) < 10" by (simp add: short_history_def)
  show ?thesis using short_history_returns_zero[OF l, of "2 / 100"] l by simp
qed



text \<open>
  C8. Modelled from the spec (\<open>analyze_news_sentiment\<close>, called by the source, is
  defined nowhere in it). For an empty news list the Sentiment Scoring Engine raises
  nothing and returns the neutral defaults, score 0.5 and label NEUTRAL, with the flag
  for insufficient data set; for every non-empty list the flag is cleared, so that the
  flag tells the empty case from a measured neutral result.
\<close>

theorem empty_news_neutral_defaults_flagged:
  "analyze_news_sentiment classify label_of []
     = Inr \<lparr>score = 5 / 10, label = NEUTRAL, insufficient_data = True\<rparr>
   \<and> (news \<noteq> [] \<longrightarrow>
        (\<exists>r. analyze_news_sentiment classify label_of news = Inr r
              \<and> \<not> insufficient_data r))"
  by (simp add: analyze_news_sentiment_def Let_def)

theorem empty_news_neutral_defaults_flagged_witness:
  "[neutral_article] \<noteq> []
   \<and> analyze_news_sentiment (\<lambda>n. 5 / 10)
        (\<lambda>s. if 6 / 10 < s then POSITIVE else if s < 4 / 10 then NEGATIVE else NEUTRAL) []
       = Inr \<lparr>score = 5 / 10, label = NEUTRAL, insufficient_data = True\<rparr>
   \<and> analyze_news_sentiment (\<lambda>n. 5 / 10)
        (\<lambda>s. if 6 / 10 < s then POSITIVE else if s < 4 / 10 then NEGATIVE else NEUTRAL)
        [neutral_article]
       = Inr \<lparr>score = 5 / 10, label = NEUTRAL, insufficient_data = False\<rparr>"
  using empty_news_neutral_defaults_flagged
          [of "\<lambda>n. 5 / 10"
              "\<lambda>s. if 6 / 10 < s then POSITIVE else if s < 4 / 10 then NEGATIVE else NEUTRAL"
              "[neutral_article]"]
  by (simp add: analyze_news_sentiment_def news_score_def neutral_article_def Let_def)

text \<open>
  C9. \<open>generate_risk_recommendations\<close> returns a non-empty list for every input; the
  list contains the high-volatility caution when the volatility is above 30 and the
  negative Sharpe-ratio flag when the Sharpe ratio is below 0; and when no rule fires it
  is the single fallback recommendation that the risk metrics are within range.
\<close>

theorem risk_recommendations_rules:
  "generate_risk_recommendations m \<noteq> []
   \<and> (metric m ''volatility'' 0 > 30
        \<longrightarrow> HighVolatility \<in> set (generate_risk_recommendations m))
   \<and> (metric m ''sharpe_ratio'' 0 < 0
        \<longrightarrow> NegativeSharpe \<in> set (generate_risk_recommendations m))
   \<and> (\<not> metric m ''volatility'' 0 > 30 \<and> \<not> metric m ''max_drawdown'' 0 < - 30
        \<and> \<not> metric m ''beta'' 1 > 15 / 10 \<and> \<not> metric m ''beta'' 1 < 5 / 10
        \<and> \<not> metric m ''sharpe_ratio'' 0 < 0 \<and> \<not> metric m ''sharpe_ratio'' 0 > 1
        \<longrightarrow> generate_risk_recommendations m = [WithinRange])"
  by (simp add: generate_risk_recommendations_def Let_def)

theorem risk_recommendations_rules_witness:
  "metric [''volatility'' \<mapsto> 35, ''sharpe_ratio'' \<mapsto> - 1] ''volatility'' 0 > 30
   \<and> metric [''volatility'' \<mapsto> 35, ''sharpe_ratio'' \<mapsto> - 1] ''sharpe_ratio'' 0 < 0
   \<and> generate_risk_recommendations [''volatility'' \<mapsto> 35, ''sharpe_ratio'' \<mapsto> - 1]
       = [HighVolatility, NegativeSharpe]
   \<and> generate_risk_recommendations
        [''volatility'' \<mapsto> 20, ''max_drawdown'' \<mapsto> - 10, ''beta'' \<mapsto> 1,
         ''sharpe_ratio'' \<mapsto> 1 / 2]
       = [WithinRange]"
  using risk_recommendations_rules[of "[''volatility'' \<mapsto> 35, ''sharpe_ratio'' \<mapsto> - 1]"]
        risk_recommendations_rules
          [of "[''volatility'' \<mapsto> 20, ''max_drawdown'' \<mapsto> - 10, ''beta'' \<mapsto> 1,
                ''sharpe_ratio'' \<mapsto> 1 / 2]"]
  by (simp add: generate_risk_recommendations_def metric_def)

text \<open>
  C10. For a list of exactly one article the split index is 0, the first half is empty
  and its mean score is the default 0.5. A single positive article (0.8, change 0.3) is
  classified IMPROVING, a single negative one (0.2, change -0.3) DETERIORATING, and a
  single neutral one STABLE: a trend is reported from one data point.
\<close>

theorem single_article_trend:
  "length [n] div 2 = 0
   \<and> avg_sentiment (take (length [n] div 2) (sort_key get_published_at [n])) = Inr (5 / 10)
   \<and> analyze_sentiment_trend [\<lparr>published_at = p, sentiment = Some ''positive''\<rparr>]
       = Inr [''trend'' \<mapsto> PStr ''IMPROVING'', ''change'' \<mapsto> PNum (3 / 10),
              ''first_half_sentiment'' \<mapsto> PNum (5 / 10),
              ''second_half_sentiment'' \<mapsto> PNum (8 / 10),
              ''description'' \<mapsto> PDescr Improved (3 / 10)]
   \<and> analyze_sentiment_trend [\<lparr>published_at = p, sentiment = Some ''negative''\<rparr>]
       = Inr [''trend'' \<mapsto> PStr ''DETERIORATING'', ''change'' \<mapsto> PNum (- (3 / 10)),
              ''first_half_sentiment'' \<mapsto> PNum (5 / 10),
              ''second_half_sentiment'' \<mapsto> PNum (2 / 10),
              ''description'' \<mapsto> PDescr Worsened (3 / 10)]
   \<and> analyze_sentiment_trend [\<lparr>published_at = p, sentiment = Some ''neutral''\<rparr>]
       = Inr [''trend'' \<mapsto> PStr ''STABLE'', ''change'' \<mapsto> PNum 0,
              ''first_half_sentiment'' \<mapsto> PNum (5 / 10),
              ''second_half_sentiment'' \<mapsto> PNum (5 / 10),
              ''description'' \<mapsto> PDescr Steady 0]"
  by (simp add: analyze_sentiment_trend_def analyze_sentiment_trend_fp_def avg_sentiment_def
        avg_sentiment_fp_def py_div_len_def get_sentiment_def exact_ops_def py_round2_def
        round_half_even_def Let_def)

end
